theory Spec2Isabelle
  imports Main
begin

section \<open>Strings\<close>

text \<open>
  A Python \<^verbatim>\<open>str\<close> is a sequence of Unicode code points, so it is modelled as a list
  of code points. \<open>ustr\<close> embeds an ASCII literal.
\<close>

type_synonym pystr = "nat list"

definition ustr :: "string \<Rightarrow> pystr" where
  "ustr s = map of_char s"

text \<open>
  \<^verbatim>\<open>str.isspace\<close> of one code point, which is what \<^verbatim>\<open>str.strip()\<close> removes:
  U+0009..U+000D, U+001C..U+0020, U+0085, U+00A0, U+1680, U+2000..U+200A, U+2028,
  U+2029, U+202F, U+205F, U+3000.
\<close>

definition is_space :: "nat \<Rightarrow> bool" where
  "is_space c \<longleftrightarrow>
     (9 \<le> c \<and> c \<le> 13) \<or> (28 \<le> c \<and> c \<le> 32) \<or> c = 133 \<or> c = 160 \<or> c = 5760 \<or>
     (8192 \<le> c \<and> c \<le> 8202) \<or> c = 8232 \<or> c = 8233 \<or> c = 8239 \<or> c = 8287 \<or> c = 12288"

definition strip :: "pystr \<Rightarrow> pystr" where
  "strip s = rev (dropWhile is_space (rev (dropWhile is_space s)))"

text \<open>\<^verbatim>\<open>sep.join(xs)\<close>.\<close>

fun join :: "pystr \<Rightarrow> pystr list \<Rightarrow> pystr" where
  "join sep [] = []"
| "join sep [x] = x"
| "join sep (x # y # ys) = x @ sep @ join sep (y # ys)"

section \<open>More string and path operations of the Python library\<close>

text \<open>\<^verbatim>\<open>s.startswith(p)\<close>.\<close>

definition startswith :: "pystr \<Rightarrow> pystr \<Rightarrow> bool" where
  "startswith s p \<longleftrightarrow> take (length p) s = p"

text \<open>\<^verbatim>\<open>s.split(c)\<close> for a one-character separator: never the empty list.\<close>

fun split_char :: "nat \<Rightarrow> pystr \<Rightarrow> pystr list" where
  "split_char c [] = [[]]"
| "split_char c (x # xs) =
     (if x = c then [] # split_char c xs
      else (case split_char c xs of [] \<Rightarrow> [[x]] | y # ys \<Rightarrow> (x # y) # ys))"

text \<open>
  \<^verbatim>\<open>line.split("=", 1)[1]\<close>, used on lines that contain \<^verbatim>\<open>=\<close>: everything after
  the first \<^verbatim>\<open>=\<close>.
\<close>

definition after_eq :: "pystr \<Rightarrow> pystr" where
  "after_eq line = tl (dropWhile (\<lambda>c. c \<noteq> 61) line)"

text \<open>\<^verbatim>\<open>s.split("-")[0]\<close>: everything before the first \<^verbatim>\<open>-\<close>.\<close>

definition before_dash :: "pystr \<Rightarrow> pystr" where
  "before_dash s = takeWhile (\<lambda>c. c \<noteq> 45) s"

text \<open>
  \<^verbatim>\<open>int(s)\<close> on text: surrounding whitespace is dropped, one sign is allowed, then
  decimal digits, with single underscores allowed between digits. \<open>None\<close> stands for
  \<^verbatim>\<open>ValueError\<close>. Only the ASCII digits are modelled.
\<close>

fun int_digits :: "bool \<Rightarrow> int \<Rightarrow> pystr \<Rightarrow> int option" where
  "int_digits prev acc [] = (if prev then Some acc else None)"
| "int_digits prev acc (c # cs) =
     (if 48 \<le> c \<and> c \<le> 57 then int_digits True (acc * 10 + (int c - 48)) cs
      else if c = 95 \<and> prev then int_digits False acc cs
      else None)"

definition py_int :: "pystr \<Rightarrow> int option" where
  "py_int s =
     (case strip s of
        [] \<Rightarrow> None
      | c # cs \<Rightarrow>
          if c = 45 then map_option uminus (int_digits False 0 cs)
          else if c = 43 then int_digits False 0 cs
          else int_digits False 0 (c # cs))"

text \<open>
  \<^verbatim>\<open>s.lower()\<close> on the ASCII letters. The result is only compared with the four
  ASCII suffixes below, and no character outside \<open>A..Z\<close> lowercases to one of
  their letters.
\<close>

definition str_lower :: "pystr \<Rightarrow> pystr" where
  "str_lower s = map (\<lambda>c. if 65 \<le> c \<and> c \<le> 90 then c + 32 else c) s"

text \<open>
  A path is the list of its components. Every segment that parser.py joins to a path
  is a file name or a sanitized name, so it holds no separator; pathlib drops an empty
  segment and the segment \<^verbatim>\<open>.\<close>.
\<close>

type_synonym path = "pystr list"

definition joinpath :: "path \<Rightarrow> pystr \<Rightarrow> path" where
  "joinpath p seg = (if seg = [] \<or> seg = ustr ''.'' then p else p @ [seg])"

text \<open>\<^verbatim>\<open>Path.name\<close>: the last component.\<close>

definition path_name :: "path \<Rightarrow> pystr" where
  "path_name p = (if p = [] then [] else last p)"

text \<open>\<^verbatim>\<open>s.rfind(c)\<close>: the highest index holding \<open>c\<close>; \<open>None\<close> stands for -1.\<close>

definition rfind :: "nat \<Rightarrow> pystr \<Rightarrow> nat option" where
  "rfind c s = (case filter (\<lambda>i. s ! i = c) (rev [0..<length s]) of
                  [] \<Rightarrow> None | i # _ \<Rightarrow> Some i)"

text \<open>
  \<^verbatim>\<open>Path.suffix\<close>:
  \<^verbatim>\<open>i = name.rfind('.'); return name[i:] if 0 < i < len(name) - 1 else ''\<close>.
\<close>

definition suffix :: "path \<Rightarrow> pystr" where
  "suffix p =
     (let name = path_name p
      in case rfind 46 name of
           None \<Rightarrow> []
         | Some i \<Rightarrow> if 0 < i \<and> i + 1 < length name then drop i name else [])"

section \<open>sound_utils.escape_folder_name\<close>

text \<open>
  The character class of the regular expression \<^verbatim>\<open>[<>:"/\\|?*\n\r\t]\<close>:
  \<^verbatim>\<open>< > : " / \ | ? *\<close>, line feed, carriage return, tab.
\<close>

definition invalid_char :: "nat \<Rightarrow> bool" where
  "invalid_char c \<longleftrightarrow> c \<in> {60, 62, 58, 34, 47, 92, 124, 63, 42, 10, 13, 9}"

text \<open>\<^verbatim>\<open>re.sub(r'[<>:"/\\|?*\n\r\t]', '_', name)\<close>: every match becomes an underscore.\<close>

definition re_sub_invalid :: "pystr \<Rightarrow> pystr" where
  "re_sub_invalid name = map (\<lambda>c. if invalid_char c then 95 else c) name"

text \<open>
  \<^verbatim>\<open>return sanitized_name.strip() or "unsorted"\<close>: the empty string is falsy.
\<close>

definition escape_folder_name :: "pystr \<Rightarrow> pystr" where
  "escape_folder_name name =
     (let sanitized_name = re_sub_invalid name
      in if strip sanitized_name = [] then ustr ''unsorted'' else strip sanitized_name)"

section \<open>Data of the two services\<close>

text \<open>
  The JSON answer of the acoustic index, with the keys parser.py reads. A key that may
  be absent is an \<open>option\<close>: \<open>recordings r = None\<close> is a result without the key
  \<^verbatim>\<open>"recordings"\<close>, \<open>rec_id\<close> is \<^verbatim>\<open>recording.get("id")\<close>.
\<close>

record acoustid_recording =
  rec_id :: "pystr option"

record acoustid_match =
  recordings :: "acoustid_recording list option"

record acoustid_response =
  results :: "acoustid_match list option"

text \<open>
  The dictionary returned by the metadata catalog client, with the keys parser.py
  reads. An entry of \<^verbatim>\<open>"artist-credit"\<close> is a join phrase (a string) or a dictionary
  that may hold an \<^verbatim>\<open>"artist"\<close> dictionary. The only key of the outer dictionary is
  \<^verbatim>\<open>"recording"\<close>, so it is truthy exactly when that key is present.
\<close>

record artist =
  artist_name :: "pystr option"

datatype artist_credit = JoinPhrase pystr | CreditDict "artist option"

record release =
  release_title :: "pystr option"
  release_date :: "pystr option"

record recording =
  artist_credits :: "artist_credit list option"
  rec_title :: "pystr option"
  release_list :: "release list option"

record metadata =
  md_recording :: "recording option"

section \<open>The world: file system, external calls, console\<close>

datatype exn =
    FileNotFoundError | FileExistsError | NotADirectoryError | IsADirectoryError
  | SameFileError | PermissionError | ValueError | TypeError
  | RequestException | WebServiceError | NameError | OtherError

datatype node = File "nat list" | Dir

text \<open>Every call that leaves the process, in the order made.\<close>

datatype effect =
    ExecutorCreated
  | ExecutorShutdown
  | RunFpcalc path
  | AcoustidLookup pystr int pystr
  | MusicBrainzLookup pystr pystr
  | Mkdir path
  | Copy2 path path
  | Unlink path

text \<open>Every \<^verbatim>\<open>print\<close>, by message.\<close>

datatype log_msg =
    FpcalcNotFound
  | FingerprintError path exn
  | AcoustidApiError exn
  | MusicBrainzApiError pystr exn
  | NoMetadataMoved path path
  | DeletedOriginal path
  | ErrorDeletingOriginal path exn
  | ErrorProcessingFile path exn
  | ProcessingBatch nat nat nat
  | SkippingInvalid path
  | UnsupportedFormat path
  | Copied path path

record world =
  fs :: "path \<Rightarrow> node option"
  effects :: "effect list"
  logged :: "log_msg list"

text \<open>
  What the collaborators answer: the standard output of the fingerprinting tool or the
  exception \<^verbatim>\<open>subprocess.run\<close> raises, the parsed answer of the acoustic index or
  the exception of the request, the answer of the metadata catalog or its exception,
  and the file-system calls the operating system refuses (permissions, full disk).
\<close>

record services =
  fpcalc :: "path \<Rightarrow> exn + pystr"
  acoustid :: "pystr \<Rightarrow> int \<Rightarrow> pystr \<Rightarrow> exn + acoustid_response"
  musicbrainz :: "pystr \<Rightarrow> pystr \<Rightarrow> exn + metadata"
  fault :: "effect \<Rightarrow> bool"

definition emit :: "effect \<Rightarrow> world \<Rightarrow> world" where
  "emit e w = w\<lparr>effects := effects w @ [e]\<rparr>"

definition print :: "log_msg \<Rightarrow> world \<Rightarrow> world" where
  "print m w = w\<lparr>logged := logged w @ [m]\<rparr>"

subsection \<open>File system\<close>

text \<open>The empty path is the root the other paths are relative to; it is a directory.\<close>

definition is_file :: "(path \<Rightarrow> node option) \<Rightarrow> path \<Rightarrow> bool" where
  "is_file f p = (case f p of Some (File c) \<Rightarrow> True | _ \<Rightarrow> False)"

definition is_dir :: "(path \<Rightarrow> node option) \<Rightarrow> path \<Rightarrow> bool" where
  "is_dir f p = (p = [] \<or> f p = Some Dir)"

definition path_exists :: "(path \<Rightarrow> node option) \<Rightarrow> path \<Rightarrow> bool" where
  "path_exists f p = (p = [] \<or> f p \<noteq> None)"

definition ancestors_self :: "path \<Rightarrow> path list" where
  "ancestors_self p = map (\<lambda>n. take n p) [1..<Suc (length p)]"

text \<open>
  \<^verbatim>\<open>Path.mkdir(parents=True, exist_ok=True)\<close>: makes the directory and its missing
  ancestors; an existing directory is accepted, a regular file in the way is not.
\<close>

definition mkdir_parents :: "services \<Rightarrow> path \<Rightarrow> world \<Rightarrow> (exn + unit) \<times> world" where
  "mkdir_parents svc p w =
     (let w1 = emit (Mkdir p) w
      in if fault svc (Mkdir p) then (Inl PermissionError, w1)
         else if is_file (fs w) p then (Inl FileExistsError, w1)
         else if list_ex (is_file (fs w)) (ancestors_self p) then (Inl NotADirectoryError, w1)
         else (Inr (), w1\<lparr>fs := fold (\<lambda>q m. m(q \<mapsto> Dir)) (ancestors_self p) (fs w)\<rparr>))"

text \<open>
  \<^verbatim>\<open>shutil.copy2(src, dst)\<close>: a destination that is a directory receives the file
  under the source's name; the content is copied as it is.
\<close>

definition copy2 :: "services \<Rightarrow> path \<Rightarrow> path \<Rightarrow> world \<Rightarrow> (exn + unit) \<times> world" where
  "copy2 svc src dst w =
     (let w1 = emit (Copy2 src dst) w;
          target = (if is_dir (fs w) dst then dst @ [path_name src] else dst)
      in if fault svc (Copy2 src dst) then (Inl PermissionError, w1)
         else case fs w src of
                None \<Rightarrow> (Inl FileNotFoundError, w1)
              | Some Dir \<Rightarrow> (Inl IsADirectoryError, w1)
              | Some (File c) \<Rightarrow>
                  if target = src then (Inl SameFileError, w1)
                  else if is_dir (fs w) target then (Inl IsADirectoryError, w1)
                  else if \<not> is_dir (fs w) (butlast target) then (Inl FileNotFoundError, w1)
                  else (Inr (), w1\<lparr>fs := (fs w)(target \<mapsto> File c)\<rparr>))"

text \<open>\<^verbatim>\<open>Path.unlink()\<close>.\<close>

definition unlink :: "services \<Rightarrow> path \<Rightarrow> world \<Rightarrow> (exn + unit) \<times> world" where
  "unlink svc p w =
     (let w1 = emit (Unlink p) w
      in if fault svc (Unlink p) then (Inl PermissionError, w1)
         else case fs w p of
                None \<Rightarrow> (Inl FileNotFoundError, w1)
              | Some Dir \<Rightarrow> (Inl IsADirectoryError, w1)
              | Some (File c) \<Rightarrow> (Inr (), w1\<lparr>fs := (fs w)(p := None)\<rparr>))"

section \<open>sound_utils: the three collaborators\<close>

text \<open>
  The loop of \<^verbatim>\<open>generate_fingerprint\<close> over the lines of the tool's output. A later
  line overrides an earlier one; \<^verbatim>\<open>int\<close> may raise \<^verbatim>\<open>ValueError\<close>.
\<close>

fun scan_lines :: "pystr list \<Rightarrow> pystr option \<Rightarrow> int option \<Rightarrow> exn + (pystr option \<times> int option)" where
  "scan_lines [] fingerprint duration = Inr (fingerprint, duration)"
| "scan_lines (line # ls) fingerprint duration =
     (if startswith line (ustr ''FINGERPRINT='') then scan_lines ls (Some (after_eq line)) duration
      else if startswith line (ustr ''DURATION='') then
        (case py_int (after_eq line) of
           None \<Rightarrow> Inl ValueError
         | Some d \<Rightarrow> scan_lines ls fingerprint (Some d))
      else scan_lines ls fingerprint duration)"

text \<open>
  \<^verbatim>\<open>generate_fingerprint\<close>: one subprocess; both \<^verbatim>\<open>except\<close> clauses print and
  return \<^verbatim>\<open>None\<close>, so the function itself never raises.
\<close>

definition generate_fingerprint ::
  "services \<Rightarrow> path \<Rightarrow> world \<Rightarrow> (pystr option \<times> int option) option \<times> world" where
  "generate_fingerprint svc file_path w =
     (let w1 = emit (RunFpcalc file_path) w
      in case fpcalc svc file_path of
           Inl e \<Rightarrow>
             if e = FileNotFoundError then (None, print FpcalcNotFound w1)
             else (None, print (FingerprintError file_path e) w1)
         | Inr output \<Rightarrow>
             (case scan_lines (split_char 10 output) None None of
                Inl e \<Rightarrow> (None, print (FingerprintError file_path e) w1)
              | Inr fd \<Rightarrow> (Some fd, w1)))"

text \<open>
  \<^verbatim>\<open>recognize_song_acoustid\<close>: one request; only \<^verbatim>\<open>requests.RequestException\<close>
  is caught.
\<close>

definition recognize_song_acoustid ::
  "services \<Rightarrow> pystr \<Rightarrow> int \<Rightarrow> pystr \<Rightarrow> world \<Rightarrow> (exn + acoustid_response option) \<times> world" where
  "recognize_song_acoustid svc fingerprint duration api_key w =
     (let w1 = emit (AcoustidLookup fingerprint duration api_key) w
      in case acoustid svc fingerprint duration api_key of
           Inl e \<Rightarrow>
             if e = RequestException then (Inr None, print (AcoustidApiError e) w1)
             else (Inl e, w1)
         | Inr response \<Rightarrow> (Inr (Some response), w1))"

text \<open>
  \<^verbatim>\<open>get_musicbrainz_metadata\<close>: one request; only
  \<^verbatim>\<open>musicbrainzngs.WebServiceError\<close> is caught. Setting the user agent changes
  nothing the pipeline reads and is left out.
\<close>

definition get_musicbrainz_metadata ::
  "services \<Rightarrow> pystr \<Rightarrow> pystr \<Rightarrow> world \<Rightarrow> (exn + metadata option) \<times> world" where
  "get_musicbrainz_metadata svc recording_id contact_email w =
     (let w1 = emit (MusicBrainzLookup recording_id contact_email) w
      in case musicbrainz svc recording_id contact_email of
           Inl e \<Rightarrow>
             if e = WebServiceError then (Inr None, print (MusicBrainzApiError recording_id e) w1)
             else (Inl e, w1)
         | Inr result \<Rightarrow> (Inr (Some result), w1))"

section \<open>parser.process_file\<close>

text \<open>
  The block \<^verbatim>\<open>if remove_origin: try: file_path.unlink() ... except Exception\<close>, which
  parser.py has twice (lines 39-44 and 132-137): a failed deletion is printed.
\<close>

definition remove_original :: "services \<Rightarrow> path \<Rightarrow> world \<Rightarrow> world" where
  "remove_original svc file_path w =
     (case unlink svc file_path w of
        (Inr u, w1) \<Rightarrow> print (DeletedOriginal file_path) w1
      | (Inl e, w1) \<Rightarrow> print (ErrorDeletingOriginal file_path e) w1)"

text \<open>The \<^verbatim>\<open>else\<close> branch of the loop over the results (lines 29-44).\<close>

definition copy_to_unsorted ::
  "services \<Rightarrow> path \<Rightarrow> path \<Rightarrow> bool \<Rightarrow> world \<Rightarrow> (exn + unit) \<times> world" where
  "copy_to_unsorted svc file_path output_path remove_origin w =
     (let unsorted_folder = joinpath output_path (ustr ''unsorted'');
          destination_file = joinpath unsorted_folder (path_name file_path)
      in case mkdir_parents svc unsorted_folder w of
           (Inl e, w1) \<Rightarrow> (Inl e, w1)
         | (Inr u, w1) \<Rightarrow>
             (case copy2 svc file_path destination_file w1 of
                (Inl e, w2) \<Rightarrow> (Inl e, w2)
              | (Inr u', w2) \<Rightarrow>
                  (let w3 = print (NoMetadataMoved file_path destination_file) w2
                   in (Inr (), if remove_origin then remove_original svc file_path w3 else w3))))"

text \<open>
  The inner loop (lines 24-27): the first recording whose \<^verbatim>\<open>"id"\<close> is present and
  not empty decides; \<open>None\<close> when the loop ends without one.
\<close>

fun first_recording_id :: "acoustid_recording list \<Rightarrow> pystr option" where
  "first_recording_id [] = None"
| "first_recording_id (r # rs) =
     (case rec_id r of
        None \<Rightarrow> first_recording_id rs
      | Some recording_id \<Rightarrow> if recording_id \<noteq> [] then Some recording_id else first_recording_id rs)"

text \<open>
  The outer loop (lines 22-44), with the \<^verbatim>\<open>return None\<close> of line 45 at its end. A
  result without \<^verbatim>\<open>"recordings"\<close> is copied to the unsorted folder and the loop goes
  on with the next result.
\<close>

fun scan_results ::
  "services \<Rightarrow> path \<Rightarrow> pystr \<Rightarrow> path \<Rightarrow> bool \<Rightarrow> acoustid_match list \<Rightarrow> world
     \<Rightarrow> (exn + metadata option) \<times> world" where
  "scan_results svc file_path contact_email output_path remove_origin [] w = (Inr None, w)"
| "scan_results svc file_path contact_email output_path remove_origin (result # rest) w =
     (case recordings result of
        Some recs \<Rightarrow>
          (case first_recording_id recs of
             Some recording_id \<Rightarrow> get_musicbrainz_metadata svc recording_id contact_email w
           | None \<Rightarrow> scan_results svc file_path contact_email output_path remove_origin rest w)
      | None \<Rightarrow>
          (case copy_to_unsorted svc file_path output_path remove_origin w of
             (Inl e, w1) \<Rightarrow> (Inl e, w1)
           | (Inr u, w1) \<Rightarrow>
               scan_results svc file_path contact_email output_path remove_origin rest w1))"

text \<open>
  The body of the \<^verbatim>\<open>try\<close> of \<^verbatim>\<open>process_file\<close>. Unpacking the \<^verbatim>\<open>None\<close> that
  \<^verbatim>\<open>generate_fingerprint\<close> returns on failure raises \<^verbatim>\<open>TypeError\<close>.
\<close>

definition process_file_body ::
  "services \<Rightarrow> path \<Rightarrow> pystr \<Rightarrow> pystr \<Rightarrow> path \<Rightarrow> bool \<Rightarrow> world
     \<Rightarrow> (exn + metadata option) \<times> world" where
  "process_file_body svc file_path api_key contact_email output_path remove_origin w =
     (case generate_fingerprint svc file_path w of
        (None, w1) \<Rightarrow> (Inl TypeError, w1)
      | (Some (fingerprint, duration), w1) \<Rightarrow>
          (case fingerprint of
             None \<Rightarrow> (Inr None, w1)
           | Some fp \<Rightarrow>
               if fp = [] then (Inr None, w1)
               else (case duration of
                       None \<Rightarrow> (Inr None, w1)
                     | Some d \<Rightarrow>
                         if d = 0 then (Inr None, w1)
                         else (case recognize_song_acoustid svc fp d api_key w1 of
                                 (Inl e, w2) \<Rightarrow> (Inl e, w2)
                               | (Inr None, w2) \<Rightarrow> (Inr None, w2)
                               | (Inr (Some acoustid_result), w2) \<Rightarrow>
                                   (case results acoustid_result of
                                      None \<Rightarrow> (Inr None, w2)
                                    | Some rs \<Rightarrow>
                                        scan_results svc file_path contact_email output_path
                                          remove_origin rs w2)))))"

text \<open>\<^verbatim>\<open>process_file\<close>: the body under \<^verbatim>\<open>try ... except Exception\<close>.\<close>

definition process_file ::
  "services \<Rightarrow> path \<Rightarrow> pystr \<Rightarrow> pystr \<Rightarrow> path \<Rightarrow> bool \<Rightarrow> world
     \<Rightarrow> (exn + metadata option) \<times> world" where
  "process_file svc file_path api_key contact_email output_path remove_origin w =
     (case process_file_body svc file_path api_key contact_email output_path remove_origin w of
        (Inl e, w1) \<Rightarrow> (Inr None, print (ErrorProcessingFile file_path e) w1)
      | (Inr r, w1) \<Rightarrow> (Inr r, w1))"

section \<open>parser.process_files_in_batches\<close>

subsection \<open>The names parser.py can use\<close>

text \<open>
  The names bound in the module parser.py: its imports (lines 1-7), the class and the
  functions it defines. Line 7 imports three names from sound_utils, and
  \<^verbatim>\<open>escape_folder_name\<close> is not one of them.
\<close>

definition parser_globals :: "string list" where
  "parser_globals =
     [''argparse'', ''Path'', ''List'', ''shutil'', ''concurrent'', ''Enum'',
      ''generate_fingerprint'', ''recognize_song_acoustid'', ''get_musicbrainz_metadata'',
      ''OrderBy'', ''process_file'', ''process_files_in_batches'', ''main'']"

text \<open>
  A call \<^verbatim>\<open>escape_folder_name(s)\<close> written in parser.py: the name is looked up first,
  before the argument is passed. It is no builtin, so when the module does not bind it the
  lookup raises \<^verbatim>\<open>NameError\<close>.
\<close>

definition call_escape_folder_name :: "pystr \<Rightarrow> exn + pystr" where
  "call_escape_folder_name s =
     (if ''escape_folder_name'' \<in> set parser_globals then Inr (escape_folder_name s)
      else Inl NameError)"

subsection \<open>Names derived from the metadata (lines 74-117 and 124)\<close>

text \<open>\<^verbatim>\<open>d.get(key, [])\<close>.\<close>

definition get_list :: "'a list option \<Rightarrow> 'a list" where
  "get_list v = (case v of None \<Rightarrow> [] | Some xs \<Rightarrow> xs)"

text \<open>
  Lines 79-85: only a dictionary entry holding an \<^verbatim>\<open>"artist"\<close> whose \<^verbatim>\<open>"name"\<close> is
  present and not empty gives a name.
\<close>

fun artist_names :: "artist_credit list \<Rightarrow> pystr list" where
  "artist_names [] = []"
| "artist_names (JoinPhrase s # cs) = artist_names cs"
| "artist_names (CreditDict None # cs) = artist_names cs"
| "artist_names (CreditDict (Some a) # cs) =
     (case artist_name a of
        None \<Rightarrow> artist_names cs
      | Some n \<Rightarrow> if n \<noteq> [] then n # artist_names cs else artist_names cs)"

definition artists_of :: "recording \<Rightarrow> pystr list" where
  "artists_of r = artist_names (get_list (artist_credits r))"

definition artist_name_str :: "recording \<Rightarrow> pystr" where
  "artist_name_str r =
     (if artists_of r \<noteq> [] then join (ustr '', '') (artists_of r) else ustr ''Unknown Artist'')"

text \<open>Line 87: the call is evaluated only when there is a name.\<close>

definition artist_folder :: "recording \<Rightarrow> exn + pystr" where
  "artist_folder r =
     (if artists_of r \<noteq> [] then call_escape_folder_name (join (ustr ''&'') (artists_of r))
      else Inr (ustr ''Unknown Artist''))"

definition song_name :: "recording \<Rightarrow> pystr" where
  "song_name r = (case rec_title r of None \<Rightarrow> ustr ''Unknown Song'' | Some t \<Rightarrow> t)"

fun album_titles :: "release list \<Rightarrow> pystr list" where
  "album_titles [] = []"
| "album_titles (rel # rels) =
     (case release_title rel of
        None \<Rightarrow> album_titles rels
      | Some t \<Rightarrow> if t \<noteq> [] then t # album_titles rels else album_titles rels)"

definition albums_of :: "recording \<Rightarrow> pystr list" where
  "albums_of r = album_titles (get_list (release_list r))"

text \<open>Line 99.\<close>

definition album_folder :: "recording \<Rightarrow> exn + pystr" where
  "album_folder r =
     (if albums_of r \<noteq> [] then call_escape_folder_name (join (ustr ''&'') (albums_of r))
      else Inr (ustr ''Unknown Album''))"

fun release_years :: "release list \<Rightarrow> pystr list" where
  "release_years [] = []"
| "release_years (rel # rels) =
     (case release_date rel of
        None \<Rightarrow> release_years rels
      | Some d \<Rightarrow> if d \<noteq> [] then before_dash d # release_years rels else release_years rels)"

definition years_of :: "recording \<Rightarrow> pystr list" where
  "years_of r = release_years (get_list (release_list r))"

text \<open>Line 107.\<close>

definition year_folder :: "recording \<Rightarrow> exn + pystr" where
  "year_folder r =
     (if years_of r \<noteq> [] then call_escape_folder_name (join (ustr ''&'') (years_of r))
      else Inr (ustr ''Unknown Year''))"

text \<open>Lines 110-117, from the three folders computed before.\<close>

definition folder_name :: "pystr \<Rightarrow> pystr \<Rightarrow> pystr \<Rightarrow> pystr \<Rightarrow> pystr" where
  "folder_name order_by artist_f album_f year_f =
     (if order_by = ustr ''artist'' then artist_f
      else if order_by = ustr ''album'' then album_f
      else if order_by = ustr ''year'' then year_f
      else ustr ''unsorted'')"

text \<open>Line 124.\<close>

definition escaped_file_name :: "recording \<Rightarrow> pystr \<Rightarrow> exn + pystr" where
  "escaped_file_name r sfx =
     call_escape_folder_name (artist_name_str r @ ustr '' - '' @ song_name r @ sfx)"

subsection \<open>Placement of an identified file (lines 73-137)\<close>

text \<open>
  The statements in their order: the three folders (lines 87, 99, 107), the choice, the
  folder made (line 121), the file name (line 124), the copy (line 128) and the deletion
  of the source. None of them is under a \<^verbatim>\<open>try\<close> but the deletion: what the others
  raise leaves \<^verbatim>\<open>process_files_in_batches\<close>. An empty dictionary is falsy and skips
  the block.
\<close>

definition place_file ::
  "services \<Rightarrow> path \<Rightarrow> path \<Rightarrow> pystr \<Rightarrow> bool \<Rightarrow> metadata \<Rightarrow> world \<Rightarrow> (exn + unit) \<times> world" where
  "place_file svc file_path output_path order_by remove_origin md w =
     (case md_recording md of
        None \<Rightarrow> (Inr (), w)
      | Some r \<Rightarrow>
          (case artist_folder r of
             Inl e \<Rightarrow> (Inl e, w)
           | Inr artist_f \<Rightarrow>
          (case album_folder r of
             Inl e \<Rightarrow> (Inl e, w)
           | Inr album_f \<Rightarrow>
          (case year_folder r of
             Inl e \<Rightarrow> (Inl e, w)
           | Inr year_f \<Rightarrow>
          (let destination_folder =
                 joinpath output_path (folder_name order_by artist_f album_f year_f)
           in case mkdir_parents svc destination_folder w of
                (Inl e, w1) \<Rightarrow> (Inl e, w1)
              | (Inr u, w1) \<Rightarrow>
                  (case escaped_file_name r (suffix file_path) of
                     Inl e \<Rightarrow> (Inl e, w1)
                   | Inr file_name \<Rightarrow>
                       (let destination_file = joinpath destination_folder file_name
                        in case copy2 svc file_path destination_file w1 of
                             (Inl e, w2) \<Rightarrow> (Inl e, w2)
                           | (Inr u', w2) \<Rightarrow>
                               (let w3 = print (Copied file_path destination_file) w2
                                in (Inr (),
                                    if remove_origin then remove_original svc file_path w3
                                    else w3)))))))))"

subsection \<open>One file of a batch (lines 64-137)\<close>

definition supported_suffixes :: "pystr list" where
  "supported_suffixes = [ustr ''.mp3'', ustr ''.flac'', ustr ''.wav'', ustr ''.ogg'']"

text \<open>
  Lines 70-71 encode the path as UTF-8 and decode it again, the identity on text. The
  call of line 72 is direct: the loop waits for \<^verbatim>\<open>process_file\<close> to return.
\<close>

definition process_one ::
  "services \<Rightarrow> path \<Rightarrow> pystr \<Rightarrow> pystr \<Rightarrow> pystr \<Rightarrow> bool \<Rightarrow> path \<Rightarrow> world
     \<Rightarrow> (exn + unit) \<times> world" where
  "process_one svc output_path order_by api_key contact_email remove_origin file_path w =
     (if \<not> path_exists (fs w) file_path \<or> \<not> is_file (fs w) file_path then
        (Inr (), print (SkippingInvalid file_path) w)
      else if str_lower (suffix file_path) \<notin> set supported_suffixes then
        (Inr (), print (UnsupportedFormat file_path) w)
      else
        (case process_file svc file_path api_key contact_email output_path remove_origin w of
           (Inl e, w1) \<Rightarrow> (Inl e, w1)
         | (Inr None, w1) \<Rightarrow> (Inr (), w1)
         | (Inr (Some md), w1) \<Rightarrow>
             place_file svc file_path output_path order_by remove_origin md w1))"

subsection \<open>The batches (lines 59-63)\<close>

text \<open>The loop over the files of one batch; an exception ends it.\<close>

fun process_batch ::
  "services \<Rightarrow> path \<Rightarrow> pystr \<Rightarrow> pystr \<Rightarrow> pystr \<Rightarrow> bool \<Rightarrow> path list \<Rightarrow> world
     \<Rightarrow> (exn + unit) \<times> world" where
  "process_batch svc output_path order_by api_key contact_email remove_origin [] w = (Inr (), w)"
| "process_batch svc output_path order_by api_key contact_email remove_origin (f # rest) w =
     (case process_one svc output_path order_by api_key contact_email remove_origin f w of
        (Inl e, w1) \<Rightarrow> (Inl e, w1)
      | (Inr u, w1) \<Rightarrow>
          process_batch svc output_path order_by api_key contact_email remove_origin rest w1)"

text \<open>\<^verbatim>\<open>range(0, n, b)\<close> for a positive step.\<close>

definition range_step :: "nat \<Rightarrow> nat \<Rightarrow> nat list" where
  "range_step n b = map (\<lambda>k. k * b) [0..<(n + b - 1) div b]"

text \<open>The loop over the batch starts \<open>i\<close>, with the progress line of each batch.\<close>

fun batches_loop ::
  "services \<Rightarrow> path list \<Rightarrow> nat \<Rightarrow> path \<Rightarrow> pystr \<Rightarrow> pystr \<Rightarrow> pystr \<Rightarrow> bool \<Rightarrow> nat list \<Rightarrow> world
     \<Rightarrow> (exn + unit) \<times> world" where
  "batches_loop svc files batch_size output_path order_by api_key contact_email remove_origin [] w =
     (Inr (), w)"
| "batches_loop svc files batch_size output_path order_by api_key contact_email remove_origin
     (i # starts) w =
     (let batch = take batch_size (drop i files);
          w1 = print (ProcessingBatch (i div batch_size + 1) (length files div batch_size + 1)
                        (length batch)) w
      in case process_batch svc output_path order_by api_key contact_email remove_origin batch w1 of
           (Inl e, w2) \<Rightarrow> (Inl e, w2)
         | (Inr u, w2) \<Rightarrow>
             batches_loop svc files batch_size output_path order_by api_key contact_email
               remove_origin starts w2)"

text \<open>
  \<^verbatim>\<open>process_files_in_batches\<close>. The executor is created on entry and shut down on
  exit, also when an exception leaves the block; no statement of the block hands it a
  task. A step of zero makes \<^verbatim>\<open>range\<close> raise \<^verbatim>\<open>ValueError\<close>, a negative step makes it
  empty.
\<close>

definition process_files_in_batches ::
  "services \<Rightarrow> path list \<Rightarrow> int \<Rightarrow> path \<Rightarrow> pystr \<Rightarrow> pystr \<Rightarrow> pystr \<Rightarrow> bool \<Rightarrow> world
     \<Rightarrow> (exn + unit) \<times> world" where
  "process_files_in_batches svc files batch_size output_path order_by api_key contact_email
     remove_origin w =
     (let w1 = emit ExecutorCreated w;
          (r, w2) =
            (if batch_size = 0 then (Inl ValueError, w1)
             else if batch_size < 0 then (Inr (), w1)
             else batches_loop svc files (nat batch_size) output_path order_by api_key
                    contact_email remove_origin (range_step (length files) (nat batch_size)) w1)
      in (r, emit ExecutorShutdown w2))"

section \<open>What a run adds to the record of external calls\<close>

definition new_effects :: "world \<Rightarrow> world \<Rightarrow> effect list" where
  "new_effects w w' = drop (length (effects w)) (effects w')"

text \<open>The run only adds to the record, and every call it adds satisfies \<open>P\<close>.\<close>

definition appends :: "(effect \<Rightarrow> bool) \<Rightarrow> world \<Rightarrow> world \<Rightarrow> bool" where
  "appends P w w' \<longleftrightarrow>
     take (length (effects w)) (effects w') = effects w \<and> list_all P (new_effects w w')"

fun is_fpcalc :: "effect \<Rightarrow> bool" where
  "is_fpcalc (RunFpcalc p) = True"
| "is_fpcalc e = False"




section \<open>Scenarios\<close>

definition out_dir :: path where
  "out_dir = [ustr ''out'']"

definition a_mp3 :: path where
  "a_mp3 = [ustr ''in'', ustr ''a.mp3'']"

definition b_mp3 :: path where
  "b_mp3 = [ustr ''in'', ustr ''b.mp3'']"

definition notes_txt :: path where
  "notes_txt = [ustr ''in'', ustr ''notes.txt'']"

definition fs0 :: "path \<Rightarrow> node option" where
  "fs0 = (\<lambda>p. None)([ustr ''in''] \<mapsto> Dir, a_mp3 \<mapsto> File [1, 2, 3], b_mp3 \<mapsto> File [4, 5],
           notes_txt \<mapsto> File [6])"

definition w0 :: world where
  "w0 = \<lparr>fs = fs0, effects = [], logged = []\<rparr>"

definition alice_rec :: recording where
  "alice_rec =
     \<lparr>artist_credits = Some [CreditDict (Some \<lparr>artist_name = Some (ustr ''Alice'')\<rparr>)],
      rec_title = Some (ustr ''Song''),
      release_list = Some [\<lparr>release_title = Some (ustr ''Album''),
                             release_date = Some (ustr ''2020-05-01'')\<rparr>]\<rparr>"

definition alice :: metadata where
  "alice = \<lparr>md_recording = Some alice_rec\<rparr>"

text \<open>A recording with no artist credit.\<close>

definition no_artist_rec :: recording where
  "no_artist_rec = \<lparr>artist_credits = None, rec_title = Some (ustr ''Song''), release_list = None\<rparr>"

definition fp_out :: pystr where
  "fp_out = ustr ''DURATION=187'' @ [10] @ ustr ''FINGERPRINT=AQAD'' @ [10]"

text \<open>Results with the recording \<^verbatim>\<open>R1\<close>, without the key, and with an entry without id.\<close>

definition match_r1 :: acoustid_match where
  "match_r1 = \<lparr>recordings = Some [\<lparr>rec_id = Some (ustr ''R1'')\<rparr>]\<rparr>"

definition match_none :: acoustid_match where
  "match_none = \<lparr>recordings = None\<rparr>"

definition match_noid :: acoustid_match where
  "match_noid = \<lparr>recordings = Some [\<lparr>rec_id = None\<rparr>]\<rparr>"

text \<open>Collaborators that all answer: the acoustic index with the results \<open>rs\<close>.\<close>

definition svc_of :: "acoustid_match list \<Rightarrow> services" where
  "svc_of rs =
     \<lparr>fpcalc = (\<lambda>p. Inr fp_out),
      acoustid = (\<lambda>f d k. Inr \<lparr>results = Some rs\<rparr>),
      musicbrainz = (\<lambda>r c. Inr alice),
      fault = (\<lambda>e. False)\<rparr>"


section \<open>Properties of the name sanitizer\<close>

lemma re_sub_invalid_clean: "c \<in> set (re_sub_invalid s) \<Longrightarrow> \<not> invalid_char c"
  by (auto simp: re_sub_invalid_def invalid_char_def)

lemma set_strip: "set (strip s) \<subseteq> set s"
  unfolding strip_def
  by (metis set_rev set_dropWhileD subsetI)

lemma strip_prefix: "\<exists>t. dropWhile is_space s = strip s @ t"
proof -
  let ?d = "dropWhile is_space s"
  have "rev ?d = takeWhile is_space (rev ?d) @ dropWhile is_space (rev ?d)" by simp
  then have "?d = rev (dropWhile is_space (rev ?d)) @ rev (takeWhile is_space (rev ?d))"
    by (metis rev_append rev_rev_ident)
  then show ?thesis unfolding strip_def by blast
qed

lemma strip_hd: "strip s \<noteq> [] \<Longrightarrow> \<not> is_space (hd (strip s))"
proof -
  assume ne: "strip s \<noteq> []"
  obtain t where t: "dropWhile is_space s = strip s @ t" using strip_prefix by blast
  then have "dropWhile is_space s \<noteq> []" using ne by simp
  then have "\<not> is_space (hd (dropWhile is_space s))" by (rule hd_dropWhile)
  then show ?thesis using t ne by simp
qed

lemma strip_last: "strip s \<noteq> [] \<Longrightarrow> \<not> is_space (last (strip s))"
proof -
  assume ne: "strip s \<noteq> []"
  let ?r = "dropWhile is_space (rev (dropWhile is_space s))"
  have "?r \<noteq> []" using ne by (simp add: strip_def)
  then have "\<not> is_space (hd ?r)" by (rule hd_dropWhile)
  then show ?thesis using ne by (simp add: strip_def last_rev)
qed

lemma strip_all_space: "(\<forall>c\<in>set s. is_space c) \<Longrightarrow> strip s = []"
proof -
  assume "\<forall>c\<in>set s. is_space c"
  then have "dropWhile is_space s = []" by simp
  then show ?thesis unfolding strip_def by (simp del: dropWhile_eq_Nil_conv)
qed

lemma strip_no_space: "(\<forall>c\<in>set s. \<not> is_space c) \<Longrightarrow> strip s = s"
proof -
  assume a: "\<forall>c\<in>set s. \<not> is_space c"
  have d: "\<And>xs. (\<forall>c\<in>set xs. \<not> is_space c) \<Longrightarrow> dropWhile is_space xs = xs"
    by (case_tac xs) auto
  have "dropWhile is_space s = s" using a by (rule d)
  moreover have "dropWhile is_space (rev s) = rev s" using a by (intro d) simp
  ultimately show ?thesis by (simp add: strip_def)
qed

lemma strip_empty_iff: "strip s = [] \<longleftrightarrow> (\<forall>c\<in>set s. is_space c)"
proof
  assume e: "strip s = []"
  let ?d = "dropWhile is_space s"
  from e have "\<forall>c\<in>set ?d. is_space c" by (simp add: strip_def)
  moreover have "?d \<noteq> [] \<Longrightarrow> \<not> is_space (hd ?d)" by (rule hd_dropWhile)
  ultimately have "?d = []" by (metis hd_in_set)
  then show "\<forall>c\<in>set s. is_space c" by simp
next
  assume "\<forall>c\<in>set s. is_space c"
  then show "strip s = []" by (rule strip_all_space)
qed

text \<open>What \<open>strip\<close> removes is whitespace before and after what it keeps.\<close>

lemma strip_decompose:
  "\<exists>pre post. s = pre @ strip s @ post \<and> (\<forall>c\<in>set pre. is_space c) \<and> (\<forall>c\<in>set post. is_space c)"
proof -
  let ?pre = "takeWhile is_space s"
  let ?d = "dropWhile is_space s"
  let ?post = "rev (takeWhile is_space (rev ?d))"
  have "rev ?d = takeWhile is_space (rev ?d) @ dropWhile is_space (rev ?d)" by simp
  then have "?d = rev (dropWhile is_space (rev ?d)) @ ?post"
    by (metis rev_append rev_rev_ident)
  then have d: "?d = strip s @ ?post" by (simp add: strip_def)
  have "s = ?pre @ ?d" by simp
  with d have "s = ?pre @ strip s @ ?post" by simp
  moreover have "\<forall>c\<in>set ?pre. is_space c" using set_takeWhileD by fastforce
  moreover have "\<forall>c\<in>set ?post. is_space c" using set_takeWhileD by fastforce
  ultimately show ?thesis by blast
qed

lemma re_sub_invalid_blank_iff:
  "(\<forall>c\<in>set (re_sub_invalid s). is_space c) \<longleftrightarrow> (\<forall>c\<in>set s. is_space c \<and> \<not> invalid_char c)"
proof -
  have "\<not> is_space 95" by (simp add: is_space_def)
  then show ?thesis by (auto simp: re_sub_invalid_def)
qed

lemma escape_folder_name_relation:
  assumes "\<not> (\<forall>c\<in>set s. is_space c \<and> \<not> invalid_char c)"
  shows "\<exists>pre post. map (\<lambda>c. if invalid_char c then 95 else c) s = pre @ escape_folder_name s @ post
           \<and> (\<forall>c\<in>set pre. is_space c) \<and> (\<forall>c\<in>set post. is_space c)"
proof -
  have "strip (re_sub_invalid s) \<noteq> []"
    using assms strip_empty_iff [of "re_sub_invalid s"] re_sub_invalid_blank_iff [of s] by blast
  then have "escape_folder_name s = strip (re_sub_invalid s)"
    by (simp add: escape_folder_name_def Let_def)
  moreover have "re_sub_invalid s = map (\<lambda>c. if invalid_char c then 95 else c) s"
    by (simp add: re_sub_invalid_def)
  ultimately show ?thesis using strip_decompose [of "re_sub_invalid s"] by simp
qed

lemma escape_folder_name_eq:
  "escape_folder_name s =
     (if strip (re_sub_invalid s) = [] then ustr ''unsorted'' else strip (re_sub_invalid s))"
  by (simp add: escape_folder_name_def Let_def)

lemma ustr_unsorted: "ustr ''unsorted'' = [117, 110, 115, 111, 114, 116, 101, 100]"
  by (simp add: ustr_def)

lemma unsorted_clean: "c \<in> set (ustr ''unsorted'') \<Longrightarrow> \<not> invalid_char c \<and> \<not> is_space c"
  by (auto simp: ustr_unsorted invalid_char_def is_space_def)

lemma escape_folder_name_clean: "c \<in> set (escape_folder_name s) \<Longrightarrow> \<not> invalid_char c"
proof (cases "strip (re_sub_invalid s) = []")
  case True
  assume "c \<in> set (escape_folder_name s)"
  with True show ?thesis by (simp add: escape_folder_name_eq unsorted_clean)
next
  case False
  assume "c \<in> set (escape_folder_name s)"
  with False have "c \<in> set (strip (re_sub_invalid s))" by (simp add: escape_folder_name_eq)
  then have "c \<in> set (re_sub_invalid s)" using set_strip by blast
  then show ?thesis by (rule re_sub_invalid_clean)
qed

lemma escape_folder_name_nonempty: "escape_folder_name s \<noteq> []"
  by (simp add: escape_folder_name_eq ustr_unsorted)

lemma escape_folder_name_trimmed:
  "\<not> is_space (hd (escape_folder_name s)) \<and> \<not> is_space (last (escape_folder_name s))"
proof (cases "strip (re_sub_invalid s) = []")
  case True
  then have "escape_folder_name s = ustr ''unsorted''" by (simp add: escape_folder_name_eq)
  then show ?thesis by (simp add: ustr_unsorted is_space_def)
next
  case False
  then have "escape_folder_name s = strip (re_sub_invalid s)" by (simp add: escape_folder_name_eq)
  with False show ?thesis by (simp add: strip_hd strip_last)
qed

lemma escape_folder_name_blank:
  assumes "\<forall>c\<in>set s. is_space c \<and> \<not> invalid_char c"
  shows "escape_folder_name s = ustr ''unsorted''"
proof -
  have "re_sub_invalid s = s" using assms by (simp add: re_sub_invalid_def map_idI)
  moreover have "strip s = []" using assms by (simp add: strip_all_space)
  ultimately show ?thesis by (simp add: escape_folder_name_eq)
qed

lemma escape_folder_name_all_invalid:
  assumes "s \<noteq> []" and "\<forall>c\<in>set s. invalid_char c"
  shows "escape_folder_name s = replicate (length s) 95"
proof -
  have r: "re_sub_invalid s = replicate (length s) 95"
    using assms(2) by (induction s) (auto simp: re_sub_invalid_def)
  have "\<forall>c\<in>set (replicate (length s) (95::nat)). \<not> is_space c" by (simp add: is_space_def)
  then have "strip (replicate (length s) 95) = replicate (length s) 95" by (rule strip_no_space)
  with r assms(1) show ?thesis by (simp add: escape_folder_name_eq)
qed

text \<open>
  C6. The sanitizer is defined on every string. Its result is the input with every
  forbidden character replaced by an underscore and the whitespace before and after
  removed (line feed, carriage return and tab are replaced, not removed), so it holds no
  forbidden character and neither starts nor ends with whitespace; when nothing is left,
  that is when the input holds nothing but whitespace that is not replaced, the result is
  \<^verbatim>\<open>unsorted\<close>. A non-empty input of forbidden characters only gives as many
  underscores, not \<^verbatim>\<open>unsorted\<close>.
\<close>

theorem escape_folder_name_spec:
  "(\<forall>c\<in>set (escape_folder_name s). \<not> invalid_char c) \<and>
   escape_folder_name s \<noteq> [] \<and>
   \<not> is_space (hd (escape_folder_name s)) \<and>
   \<not> is_space (last (escape_folder_name s)) \<and>
   ((\<forall>c\<in>set s. is_space c \<and> \<not> invalid_char c) \<longrightarrow> escape_folder_name s = ustr ''unsorted'') \<and>
   (\<not> (\<forall>c\<in>set s. is_space c \<and> \<not> invalid_char c) \<longrightarrow>
      (\<exists>pre post.
         map (\<lambda>c. if invalid_char c then 95 else c) s = pre @ escape_folder_name s @ post \<and>
         (\<forall>c\<in>set pre. is_space c) \<and> (\<forall>c\<in>set post. is_space c))) \<and>
   (s \<noteq> [] \<and> (\<forall>c\<in>set s. invalid_char c) \<longrightarrow> escape_folder_name s = replicate (length s) 95)"
proof (intro conjI impI)
  show "\<forall>c\<in>set (escape_folder_name s). \<not> invalid_char c"
    using escape_folder_name_clean by blast
  show "escape_folder_name s \<noteq> []" by (rule escape_folder_name_nonempty)
  show "\<not> is_space (hd (escape_folder_name s))" using escape_folder_name_trimmed by blast
  show "\<not> is_space (last (escape_folder_name s))" using escape_folder_name_trimmed by blast
next
  assume "\<forall>c\<in>set s. is_space c \<and> \<not> invalid_char c"
  then show "escape_folder_name s = ustr ''unsorted''" by (rule escape_folder_name_blank)
next
  assume "\<not> (\<forall>c\<in>set s. is_space c \<and> \<not> invalid_char c)"
  then show "\<exists>pre post.
         map (\<lambda>c. if invalid_char c then 95 else c) s = pre @ escape_folder_name s @ post \<and>
         (\<forall>c\<in>set pre. is_space c) \<and> (\<forall>c\<in>set post. is_space c)"
    by (rule escape_folder_name_relation)
next
  assume "s \<noteq> [] \<and> (\<forall>c\<in>set s. invalid_char c)"
  then show "escape_folder_name s = replicate (length s) 95"
    using escape_folder_name_all_invalid by blast
qed

theorem escape_folder_name_spec_witness:
  "escape_folder_name (ustr ''  '') = ustr ''unsorted'' \<and>
   escape_folder_name (ustr ''<>'') = ustr ''__'' \<and>
   list_all (\<lambda>c. \<not> invalid_char c) (escape_folder_name (ustr '' AC/DC: Live? '')) \<and>
   (\<exists>pre post. ustr ''  Pink Floyd '' = pre @ escape_folder_name (ustr ''  Pink Floyd '') @ post \<and>
      list_all is_space pre \<and> list_all is_space post)"
proof -
  have blank: "\<forall>c\<in>set (ustr ''  ''). is_space c \<and> \<not> invalid_char c"
    by (simp add: ustr_def is_space_def invalid_char_def)
  have bad: "ustr ''<>'' \<noteq> [] \<and> (\<forall>c\<in>set (ustr ''<>''). invalid_char c)"
    by (simp add: ustr_def invalid_char_def)
  have under: "ustr ''__'' = replicate (length (ustr ''<>'')) 95"
    by (simp add: ustr_def numeral_2_eq_2)
  have 1: "escape_folder_name (ustr ''  '') = ustr ''unsorted''"
    using escape_folder_name_spec [of "ustr ''  ''"] blank by blast
  have 2: "escape_folder_name (ustr ''<>'') = ustr ''__''"
    using escape_folder_name_spec [of "ustr ''<>''"] bad under by presburger
  have 3: "list_all (\<lambda>c. \<not> invalid_char c) (escape_folder_name (ustr '' AC/DC: Live? ''))"
    using escape_folder_name_spec [of "ustr '' AC/DC: Live? ''"] unfolding list_all_iff by blast
  have clean: "map (\<lambda>c. if invalid_char c then 95 else c) (ustr ''  Pink Floyd '') = ustr ''  Pink Floyd ''"
    by (simp add: ustr_def invalid_char_def)
  have "\<not> (\<forall>c\<in>set (ustr ''  Pink Floyd ''). is_space c \<and> \<not> invalid_char c)"
    by (simp add: ustr_def is_space_def)
  then have "\<exists>pre post.
      map (\<lambda>c. if invalid_char c then 95 else c) (ustr ''  Pink Floyd '') =
        pre @ escape_folder_name (ustr ''  Pink Floyd '') @ post \<and>
      (\<forall>c\<in>set pre. is_space c) \<and> (\<forall>c\<in>set post. is_space c)"
    using escape_folder_name_spec [of "ustr ''  Pink Floyd ''"] by blast
  then have 4: "\<exists>pre post. ustr ''  Pink Floyd '' = pre @ escape_folder_name (ustr ''  Pink Floyd '') @ post \<and>
      list_all is_space pre \<and> list_all is_space post"
    unfolding clean list_all_iff .
  show ?thesis using 1 2 3 4 by blast
qed

text \<open>
  C6 as the specification words it fails: the input \<^verbatim>\<open><>\<close> holds forbidden characters
  only, and a tab alone is whitespace only, yet neither result is \<^verbatim>\<open>unsorted\<close>.
\<close>

theorem escape_folder_name_counterexample:
  "list_all invalid_char (ustr ''<>'') \<and>
   escape_folder_name (ustr ''<>'') = ustr ''__'' \<and>
   escape_folder_name (ustr ''<>'') \<noteq> ustr ''unsorted'' \<and>
   list_all is_space [9] \<and>
   escape_folder_name [9] = ustr ''_'' \<and>
   escape_folder_name [9] \<noteq> ustr ''unsorted''"
  by (simp add: escape_folder_name_eq re_sub_invalid_def invalid_char_def strip_def is_space_def
      ustr_def)

section \<open>The record of external calls only grows\<close>

lemma emit_simps [simp]:
  "effects (emit e w) = effects w @ [e]" "fs (emit e w) = fs w" "logged (emit e w) = logged w"
  by (simp_all add: emit_def)

lemma print_simps [simp]:
  "effects (print m w) = effects w" "fs (print m w) = fs w" "logged (print m w) = logged w @ [m]"
  by (simp_all add: print_def)

lemma appends_iff: "appends P w w' \<longleftrightarrow> (\<exists>es. effects w' = effects w @ es \<and> list_all P es)"
proof
  assume a: "appends P w w'"
  then have "effects w' = effects w @ new_effects w w'"
    unfolding appends_def new_effects_def by (metis append_take_drop_id)
  with a show "\<exists>es. effects w' = effects w @ es \<and> list_all P es"
    unfolding appends_def by blast
next
  assume "\<exists>es. effects w' = effects w @ es \<and> list_all P es"
  then show "appends P w w'" by (auto simp: appends_def new_effects_def)
qed

lemma appendsI: "effects w' = effects w @ es \<Longrightarrow> list_all P es \<Longrightarrow> appends P w w'"
  using appends_iff by blast


lemma appends_refl: "effects w' = effects w \<Longrightarrow> appends P w w'"
  by (simp add: appends_def new_effects_def)

lemma appends_trans: "appends P w w1 \<Longrightarrow> appends P w1 w2 \<Longrightarrow> appends P w w2"
  unfolding appends_iff by (metis append.assoc list_all_append)

lemma mkdir_parents_effects: "effects (snd (mkdir_parents svc p w)) = effects w @ [Mkdir p]"
  by (simp add: mkdir_parents_def Let_def)

lemma copy2_effects: "effects (snd (copy2 svc src dst w)) = effects w @ [Copy2 src dst]"
  by (simp add: copy2_def Let_def split: option.splits node.splits)

lemma unlink_effects: "effects (snd (unlink svc p w)) = effects w @ [Unlink p]"
  by (simp add: unlink_def Let_def split: option.splits node.splits)

lemma remove_original_effects: "effects (remove_original svc p w) = effects w @ [Unlink p]"
proof -
  obtain r w1 where u: "unlink svc p w = (r, w1)" by fastforce
  then have "effects w1 = effects w @ [Unlink p]" using unlink_effects [of svc p w] by simp
  then show ?thesis using u by (cases r) (simp_all add: remove_original_def)
qed

lemma mkdir_parents_appends: "P (Mkdir p) \<Longrightarrow> appends P w (snd (mkdir_parents svc p w))"
  by (rule appendsI [OF mkdir_parents_effects]) simp

lemma copy2_appends: "P (Copy2 a b) \<Longrightarrow> appends P w (snd (copy2 svc a b w))"
  by (rule appendsI [OF copy2_effects]) simp

lemma remove_original_appends: "P (Unlink p) \<Longrightarrow> appends P w (remove_original svc p w)"
  by (rule appendsI [OF remove_original_effects]) simp

text \<open>Making a folder, copying into it and deleting the source, as both placements do.\<close>

lemma placement_appends:
  assumes "P (Mkdir d)" "P (Copy2 f t)" "P (Unlink f)"
  shows "appends P w (snd (case mkdir_parents svc d w of
           (Inl e, w1) \<Rightarrow> (Inl e, w1)
         | (Inr u, w1) \<Rightarrow>
             (case copy2 svc f t w1 of
                (Inl e, w2) \<Rightarrow> (Inl e, w2)
              | (Inr u', w2) \<Rightarrow>
                  (Inr (), if rm then remove_original svc f (print m w2) else print m w2))))"
proof -
  obtain r1 w1 where m: "mkdir_parents svc d w = (r1, w1)" by fastforce
  have a1: "appends P w w1" using mkdir_parents_appends [of P d w svc] assms(1) m by simp
  obtain r2 w2 where c: "copy2 svc f t w1 = (r2, w2)" by fastforce
  have a2: "appends P w1 w2" using copy2_appends [of P f t w1 svc] assms(2) c by simp
  have a3: "appends P w2 (print m w2)" by (rule appends_refl) simp
  have a4: "appends P (print m w2) (remove_original svc f (print m w2))"
    using assms(3) by (rule remove_original_appends)
  show ?thesis
  proof (cases r1)
    case (Inl e)
    then show ?thesis using m a1 by simp
  next
    case (Inr u)
    show ?thesis
    proof (cases r2)
      case (Inl e)
      then show ?thesis using m c Inr a1 a2 appends_trans by auto
    next
      case (Inr u')
      have "appends P w (print m w2)" using a1 a2 a3 appends_trans by blast
      moreover have "appends P w (remove_original svc f (print m w2))"
        using a1 a2 a3 a4 appends_trans by blast
      ultimately show ?thesis using m c \<open>r1 = Inr u\<close> Inr by (simp add: Let_def)
    qed
  qed
qed

lemma copy_to_unsorted_appends:
  assumes "\<And>p. P (Mkdir p)" "\<And>a b. P (Copy2 a b)" "\<And>p. P (Unlink p)"
  shows "appends P w (snd (copy_to_unsorted svc f out rm w))"
  unfolding copy_to_unsorted_def Let_def
  by (rule placement_appends) (simp_all add: assms)

lemma get_musicbrainz_metadata_effects:
  "effects (snd (get_musicbrainz_metadata svc rid c w)) = effects w @ [MusicBrainzLookup rid c]"
  by (simp add: get_musicbrainz_metadata_def Let_def split: sum.splits)

lemma recognize_song_acoustid_effects:
  "effects (snd (recognize_song_acoustid svc fp d k w)) = effects w @ [AcoustidLookup fp d k]"
  by (simp add: recognize_song_acoustid_def Let_def split: sum.splits)

lemma generate_fingerprint_effects:
  "effects (snd (generate_fingerprint svc f w)) = effects w @ [RunFpcalc f]"
  by (simp add: generate_fingerprint_def Let_def split: sum.splits)

lemma scan_results_appends:
  assumes "\<And>p. P (Mkdir p)" "\<And>a b. P (Copy2 a b)" "\<And>p. P (Unlink p)"
    and "\<And>a b. P (MusicBrainzLookup a b)"
  shows "appends P w (snd (scan_results svc f c out rm rs w))"
proof (induction rs arbitrary: w)
  case Nil
  show ?case by (simp add: appends_refl)
next
  case (Cons m rest)
  show ?case
  proof (cases "recordings m")
    case None
    obtain r1 w1 where u: "copy_to_unsorted svc f out rm w = (r1, w1)" by fastforce
    have a1: "appends P w w1"
      using copy_to_unsorted_appends [of P w svc f out rm] assms(1-3) u by simp
    show ?thesis
    proof (cases r1)
      case (Inl e)
      then show ?thesis using None u a1 by simp
    next
      case (Inr x)
      then show ?thesis using None u a1 Cons.IH [of w1] appends_trans by auto
    qed
  next
    case (Some recs)
    show ?thesis
    proof (cases "first_recording_id recs")
      case None
      then show ?thesis using Some Cons.IH [of w] by simp
    next
      case (Some rid)
      have "appends P w (snd (get_musicbrainz_metadata svc rid c w))"
        by (rule appendsI [OF get_musicbrainz_metadata_effects]) (simp add: assms(4))
      then show ?thesis using \<open>recordings m = Some recs\<close> Some by simp
    qed
  qed
qed

section \<open>The sanitizer is out of reach of parser.py\<close>

lemma call_escape_folder_name_raises: "call_escape_folder_name s = Inl NameError"
  by (simp add: call_escape_folder_name_def parser_globals_def)

lemma artist_folder_eq:
  "artist_folder r = (if artists_of r = [] then Inr (ustr ''Unknown Artist'') else Inl NameError)"
  by (simp add: artist_folder_def call_escape_folder_name_raises)

lemma album_folder_eq:
  "album_folder r = (if albums_of r = [] then Inr (ustr ''Unknown Album'') else Inl NameError)"
  by (simp add: album_folder_def call_escape_folder_name_raises)

lemma year_folder_eq:
  "year_folder r = (if years_of r = [] then Inr (ustr ''Unknown Year'') else Inl NameError)"
  by (simp add: year_folder_def call_escape_folder_name_raises)

lemma escaped_file_name_raises: "escaped_file_name r sfx = Inl NameError"
  by (simp add: escaped_file_name_def call_escape_folder_name_raises)

text \<open>
  What is left of the placement: nothing before the folder is made when the metadata
  names an artist, an album or a year, and nothing after it otherwise.
\<close>

lemma place_file_eq:
  "place_file svc f out ob rm md w =
     (case md_recording md of
        None \<Rightarrow> (Inr (), w)
      | Some r \<Rightarrow>
          if artists_of r \<noteq> [] \<or> albums_of r \<noteq> [] \<or> years_of r \<noteq> [] then (Inl NameError, w)
          else (case mkdir_parents svc
                       (joinpath out (folder_name ob (ustr ''Unknown Artist'')
                          (ustr ''Unknown Album'') (ustr ''Unknown Year''))) w of
                  (Inl e, w1) \<Rightarrow> (Inl e, w1)
                | (Inr u, w1) \<Rightarrow> (Inl NameError, w1)))"
  by (simp add: place_file_def artist_folder_eq album_folder_eq year_folder_eq
      escaped_file_name_raises Let_def split: option.splits prod.splits sum.splits)

lemma place_file_appends:
  assumes "\<And>p. P (Mkdir p)"
  shows "appends P w (snd (place_file svc f out ob rm md w))"
proof (cases "md_recording md")
  case None
  then show ?thesis by (simp add: place_file_eq appends_refl)
next
  case (Some r)
  let ?d = "joinpath out (folder_name ob (ustr ''Unknown Artist'')
              (ustr ''Unknown Album'') (ustr ''Unknown Year''))"
  obtain r1 w1 where m: "mkdir_parents svc ?d w = (r1, w1)" by fastforce
  have "appends P w w1" using mkdir_parents_appends [of P ?d w svc] assms m by simp
  then show ?thesis
    using Some m by (cases r1) (simp_all add: place_file_eq appends_refl)
qed

lemma place_file_raises:
  "md_recording md = Some r \<Longrightarrow> \<exists>e. fst (place_file svc f out ob rm md w) = Inl e"
proof -
  assume s: "md_recording md = Some r"
  let ?d = "joinpath out (folder_name ob (ustr ''Unknown Artist'')
              (ustr ''Unknown Album'') (ustr ''Unknown Year''))"
  obtain r1 w1 where m: "mkdir_parents svc ?d w = (r1, w1)" by fastforce
  show ?thesis using s m by (cases r1) (simp_all add: place_file_eq)
qed

section \<open>process_file: its calls, its result, its boundary\<close>

lemma process_file_body_effects:
  assumes "\<And>a b c. P (AcoustidLookup a b c)" "\<And>p. P (Mkdir p)" "\<And>a b. P (Copy2 a b)"
    and "\<And>p. P (Unlink p)" "\<And>a b. P (MusicBrainzLookup a b)"
  shows "\<exists>es. effects (snd (process_file_body svc f k c out rm w)) = effects w @ RunFpcalc f # es
           \<and> list_all P es"
proof -
  obtain g w1 where g: "generate_fingerprint svc f w = (g, w1)" by fastforce
  have e1: "effects w1 = effects w @ [RunFpcalc f]"
    using generate_fingerprint_effects [of svc f w] g by simp
  have stop: "\<exists>es. effects w1 = effects w @ RunFpcalc f # es \<and> list_all P es"
    using e1 by simp
  show ?thesis
  proof (cases g)
    case None
    then show ?thesis using g stop by (simp add: process_file_body_def)
  next
    case (Some fd)
    obtain fingerprint duration where fd: "fd = (fingerprint, duration)" by fastforce
    show ?thesis
    proof (cases "\<exists>fp d. fingerprint = Some fp \<and> fp \<noteq> [] \<and> duration = Some d \<and> d \<noteq> 0")
      case False
      then have "process_file_body svc f k c out rm w = (Inr None, w1)"
        using g Some fd by (auto simp: process_file_body_def split: option.splits)
      then show ?thesis using stop by simp
    next
      case True
      then obtain fp d where t: "fingerprint = Some fp" "fp \<noteq> []" "duration = Some d" "d \<noteq> 0"
        by blast
      obtain a w2 where a: "recognize_song_acoustid svc fp d k w1 = (a, w2)" by fastforce
      have e2: "effects w2 = effects w @ RunFpcalc f # [AcoustidLookup fp d k]"
        using recognize_song_acoustid_effects [of svc fp d k w1] a e1 by simp
      have stop2: "\<exists>es. effects w2 = effects w @ RunFpcalc f # es \<and> list_all P es"
        using e2 assms(1) by simp
      have body: "process_file_body svc f k c out rm w =
          (case a of
             Inl e \<Rightarrow> (Inl e, w2)
           | Inr None \<Rightarrow> (Inr None, w2)
           | Inr (Some resp) \<Rightarrow>
               (case results resp of
                  None \<Rightarrow> (Inr None, w2)
                | Some rs \<Rightarrow> scan_results svc f c out rm rs w2))"
        using g Some fd t a by (simp add: process_file_body_def split: sum.splits option.splits)
      show ?thesis
      proof (cases "\<exists>resp rs. a = Inr (Some resp) \<and> results resp = Some rs")
        case False
        then have "snd (process_file_body svc f k c out rm w) = w2"
          unfolding body by (auto split: sum.splits option.splits)
        then show ?thesis using stop2 by simp
      next
        case True
        then obtain resp rs where r: "a = Inr (Some resp)" "results resp = Some rs" by blast
        have "appends P w2 (snd (scan_results svc f c out rm rs w2))"
          by (rule scan_results_appends) (simp_all add: assms)
        then obtain es where es:
          "effects (snd (scan_results svc f c out rm rs w2)) = effects w2 @ es" "list_all P es"
          using appends_iff by blast
        have "snd (process_file_body svc f k c out rm w) = snd (scan_results svc f c out rm rs w2)"
          unfolding body using r by simp
        then have "effects (snd (process_file_body svc f k c out rm w)) =
            effects w @ RunFpcalc f # (AcoustidLookup fp d k # es)"
          using es(1) e2 by simp
        moreover have "list_all P (AcoustidLookup fp d k # es)" using es(2) assms(1) by simp
        ultimately show ?thesis by blast
      qed
    qed
  qed
qed

lemma process_file_effects_body:
  "effects (snd (process_file svc f k c out rm w)) =
     effects (snd (process_file_body svc f k c out rm w))"
  by (simp add: process_file_def split: prod.splits sum.splits)












section \<open>One candidate of a batch\<close>

lemma process_one_invalid:
  assumes "\<not> (path_exists (fs w) f \<and> is_file (fs w) f \<and>
              str_lower (suffix f) \<in> set supported_suffixes)"
  shows "process_one svc out ob k c rm f w =
           (Inr (), print (if \<not> path_exists (fs w) f \<or> \<not> is_file (fs w) f
                           then SkippingInvalid f else UnsupportedFormat f) w)"
  using assms by (auto simp: process_one_def)

lemma process_one_valid_effects:
  assumes "path_exists (fs w) f \<and> is_file (fs w) f \<and>
             str_lower (suffix f) \<in> set supported_suffixes"
  shows "\<exists>es. effects (snd (process_one svc out ob k c rm f w)) = effects w @ RunFpcalc f # es
           \<and> list_all (\<lambda>e. \<not> is_fpcalc e) es"
proof -
  let ?P = "\<lambda>e. \<not> is_fpcalc e"
  obtain r w1 where p: "process_file svc f k c out rm w = (r, w1)" by fastforce
  have "\<exists>es. effects (snd (process_file_body svc f k c out rm w)) = effects w @ RunFpcalc f # es
           \<and> list_all ?P es"
    by (rule process_file_body_effects) simp_all
  then obtain es where es: "effects w1 = effects w @ RunFpcalc f # es" "list_all ?P es"
    using process_file_effects_body [of svc f k c out rm w] p by auto
  have one: "process_one svc out ob k c rm f w =
      (case r of
         Inl e \<Rightarrow> (Inl e, w1)
       | Inr None \<Rightarrow> (Inr (), w1)
       | Inr (Some md) \<Rightarrow> place_file svc f out ob rm md w1)"
    using assms p by (simp add: process_one_def split: sum.splits option.splits)
  show ?thesis
  proof (cases "\<exists>md. r = Inr (Some md)")
    case False
    then have "snd (process_one svc out ob k c rm f w) = w1"
      unfolding one by (auto split: sum.splits option.splits)
    then show ?thesis using es by auto
  next
    case True
    then obtain md where md: "r = Inr (Some md)" by blast
    have "appends ?P w1 (snd (place_file svc f out ob rm md w1))"
      by (rule place_file_appends) simp
    then obtain es2 where es2:
      "effects (snd (place_file svc f out ob rm md w1)) = effects w1 @ es2" "list_all ?P es2"
      using appends_iff by blast
    have "effects (snd (process_one svc out ob k c rm f w)) = effects w @ RunFpcalc f # (es @ es2)"
      unfolding one using md es(1) es2(1) by simp
    moreover have "list_all ?P (es @ es2)" using es(2) es2(2) by simp
    ultimately show ?thesis by blast
  qed
qed

text \<open>
  The validation of one candidate. For the candidate the loop is at: when the path exists, is a regular file and its
  suffix in lower case is one of the four, the fingerprinting tool is run on it exactly
  once, as the first call made for it. Any other path is skipped: one line is printed, no
  call leaves the process (no fingerprinting, no lookup, no file operation) and the file
  system is as before.
\<close>

theorem process_one_fingerprints_iff:
  "(path_exists (fs w) f \<and> is_file (fs w) f \<and> str_lower (suffix f) \<in> set supported_suffixes
      \<longrightarrow> (\<exists>es. effects (snd (process_one svc out ob k c rm f w)) = effects w @ RunFpcalc f # es \<and>
                list_all (\<lambda>e. \<not> is_fpcalc e) es)) \<and>
   (\<not> (path_exists (fs w) f \<and> is_file (fs w) f \<and> str_lower (suffix f) \<in> set supported_suffixes)
      \<longrightarrow> fst (process_one svc out ob k c rm f w) = Inr () \<and>
          effects (snd (process_one svc out ob k c rm f w)) = effects w \<and>
          fs (snd (process_one svc out ob k c rm f w)) = fs w \<and>
          (\<exists>m. logged (snd (process_one svc out ob k c rm f w)) = logged w @ [m]))"
proof (intro conjI impI)
  assume "path_exists (fs w) f \<and> is_file (fs w) f \<and> str_lower (suffix f) \<in> set supported_suffixes"
  then show "\<exists>es. effects (snd (process_one svc out ob k c rm f w)) = effects w @ RunFpcalc f # es \<and>
                list_all (\<lambda>e. \<not> is_fpcalc e) es"
    by (rule process_one_valid_effects)
next
  assume a: "\<not> (path_exists (fs w) f \<and> is_file (fs w) f \<and>
                 str_lower (suffix f) \<in> set supported_suffixes)"
  note eq = process_one_invalid [OF a, of svc out ob k c rm]
  show "fst (process_one svc out ob k c rm f w) = Inr ()" by (simp add: eq)
  show "effects (snd (process_one svc out ob k c rm f w)) = effects w" by (simp add: eq)
  show "fs (snd (process_one svc out ob k c rm f w)) = fs w" by (simp add: eq)
  show "\<exists>m. logged (snd (process_one svc out ob k c rm f w)) = logged w @ [m]" by (simp add: eq)
qed

lemma suffix_a_mp3: "suffix a_mp3 = ustr ''.mp3''"
  by (simp add: suffix_def a_mp3_def path_name_def rfind_def ustr_def Let_def)

lemma suffix_notes_txt: "suffix notes_txt = ustr ''.txt''"
  by (simp add: suffix_def notes_txt_def path_name_def rfind_def ustr_def Let_def)

theorem process_one_fingerprints_iff_witness:
  "(\<exists>es. effects (snd (process_one (svc_of [match_none]) out_dir (ustr ''artist'') (ustr ''K'')
                         (ustr ''me@x.org'') False a_mp3 w0)) = RunFpcalc a_mp3 # es \<and>
         list_all (\<lambda>e. \<not> is_fpcalc e) es) \<and>
   effects (snd (process_one (svc_of [match_none]) out_dir (ustr ''artist'') (ustr ''K'')
                   (ustr ''me@x.org'') False notes_txt w0)) = [] \<and>
   fs (snd (process_one (svc_of [match_none]) out_dir (ustr ''artist'') (ustr ''K'')
              (ustr ''me@x.org'') False notes_txt w0)) = fs0 \<and>
   effects (snd (process_one (svc_of [match_none]) out_dir (ustr ''artist'') (ustr ''K'')
                   (ustr ''me@x.org'') False [ustr ''in'', ustr ''gone.mp3''] w0)) = []"
proof -
  have w: "effects w0 = []" "fs w0 = fs0" by (simp_all add: w0_def)
  have va: "path_exists (fs w0) a_mp3 \<and> is_file (fs w0) a_mp3 \<and>
      str_lower (suffix a_mp3) \<in> set supported_suffixes"
    by (simp add: suffix_a_mp3 w) (simp add: path_exists_def is_file_def fs0_def a_mp3_def b_mp3_def
        notes_txt_def str_lower_def supported_suffixes_def ustr_def)
  have vn: "\<not> (path_exists (fs w0) notes_txt \<and> is_file (fs w0) notes_txt \<and>
      str_lower (suffix notes_txt) \<in> set supported_suffixes)"
    by (simp add: suffix_notes_txt) (simp add: str_lower_def supported_suffixes_def ustr_def)
  have vg: "\<not> (path_exists (fs w0) [ustr ''in'', ustr ''gone.mp3''] \<and>
      is_file (fs w0) [ustr ''in'', ustr ''gone.mp3''] \<and>
      str_lower (suffix [ustr ''in'', ustr ''gone.mp3'']) \<in> set supported_suffixes)"
    by (simp add: w) (simp add: path_exists_def fs0_def a_mp3_def b_mp3_def notes_txt_def ustr_def)
  let ?run = "process_one (svc_of [match_none]) out_dir (ustr ''artist'') (ustr ''K'')
                (ustr ''me@x.org'') False"
  have "\<exists>es. effects (snd (?run a_mp3 w0)) = effects w0 @ RunFpcalc a_mp3 # es \<and>
          list_all (\<lambda>e. \<not> is_fpcalc e) es"
    using process_one_fingerprints_iff [where w = w0 and f = a_mp3] va by blast
  then have 1: "\<exists>es. effects (snd (?run a_mp3 w0)) = RunFpcalc a_mp3 # es \<and>
          list_all (\<lambda>e. \<not> is_fpcalc e) es"
    unfolding w by simp
  have "effects (snd (?run notes_txt w0)) = effects w0 \<and> fs (snd (?run notes_txt w0)) = fs w0"
    using process_one_fingerprints_iff [where w = w0 and f = notes_txt] vn by blast
  then have 2: "effects (snd (?run notes_txt w0)) = [] \<and> fs (snd (?run notes_txt w0)) = fs0"
    unfolding w .
  have "effects (snd (?run [ustr ''in'', ustr ''gone.mp3''] w0)) = effects w0"
    using process_one_fingerprints_iff [where w = w0 and f = "[ustr ''in'', ustr ''gone.mp3'']"] vg
    by blast
  then have 3: "effects (snd (?run [ustr ''in'', ustr ''gone.mp3''] w0)) = []"
    unfolding w .
  show ?thesis using 1 2 3 by blast
qed

section \<open>The scenarios, step by step\<close>

lemma scan_lines_fp_out:
  "scan_lines (split_char 10 fp_out) None None = Inr (Some (ustr ''AQAD''), Some 187)"
  by (simp add: fp_out_def ustr_def startswith_def after_eq_def py_int_def strip_def is_space_def)

lemma generate_fingerprint_svc_of:
  "generate_fingerprint (svc_of rs) f w =
     (Some (Some (ustr ''AQAD''), Some 187), emit (RunFpcalc f) w)"
  by (simp add: generate_fingerprint_def svc_of_def scan_lines_fp_out)

lemma process_file_body_svc_of:
  "process_file_body (svc_of rs) f k c out rm w =
     scan_results (svc_of rs) f c out rm rs
       (emit (AcoustidLookup (ustr ''AQAD'') 187 k) (emit (RunFpcalc f) w))"
proof -
  have "ustr ''AQAD'' \<noteq> []" by (simp add: ustr_def)
  moreover have "recognize_song_acoustid (svc_of rs) (ustr ''AQAD'') 187 k (emit (RunFpcalc f) w) =
      (Inr (Some \<lparr>results = Some rs\<rparr>),
       emit (AcoustidLookup (ustr ''AQAD'') 187 k) (emit (RunFpcalc f) w))"
    by (simp add: recognize_song_acoustid_def svc_of_def)
  ultimately show ?thesis
    by (simp add: process_file_body_def generate_fingerprint_svc_of)
qed

lemma get_musicbrainz_metadata_svc_of:
  "get_musicbrainz_metadata (svc_of rs) rid c w =
     (Inr (Some alice), emit (MusicBrainzLookup rid c) w)"
  by (simp add: get_musicbrainz_metadata_def svc_of_def)

lemma artists_of_alice: "artists_of alice_rec = [ustr ''Alice'']"
  by (simp add: artists_of_def alice_rec_def get_list_def ustr_def)

lemma valid_mp3_w0:
  "fs w = fs0 \<Longrightarrow> f = a_mp3 \<or> f = b_mp3 \<Longrightarrow>
     path_exists (fs w) f \<and> is_file (fs w) f \<and> str_lower (suffix f) \<in> set supported_suffixes"
  by (auto simp: path_exists_def is_file_def fs0_def a_mp3_def b_mp3_def notes_txt_def
      suffix_def path_name_def rfind_def Let_def str_lower_def supported_suffixes_def ustr_def)

lemma place_file_alice: "place_file svc f out ob rm alice w = (Inl NameError, w)"
  by (simp add: place_file_eq alice_def artists_of_alice)

text \<open>
  The run of the scenario: two files in one batch, the first identified. The exception of
  line 87 leaves \<^verbatim>\<open>process_files_in_batches\<close> after the three calls made for the
  first file.
\<close>

lemma identified_run:
  "\<exists>m. process_files_in_batches (svc_of [match_r1]) [a_mp3, b_mp3] 100 out_dir
         (ustr ''artist'') (ustr ''K'') (ustr ''me@x.org'') False w0 =
       (Inl NameError,
        emit ExecutorShutdown
          (emit (MusicBrainzLookup (ustr ''R1'') (ustr ''me@x.org''))
             (emit (AcoustidLookup (ustr ''AQAD'') 187 (ustr ''K''))
                (emit (RunFpcalc a_mp3) (print m (emit ExecutorCreated w0))))))"
proof -
  let ?after = "\<lambda>w. emit (MusicBrainzLookup (ustr ''R1'') (ustr ''me@x.org''))
               (emit (AcoustidLookup (ustr ''AQAD'') 187 (ustr ''K'')) (emit (RunFpcalc a_mp3) w))"
  have rid: "ustr ''R1'' \<noteq> []"
    by (simp add: ustr_def)
  have pf: "\<And>w. process_file (svc_of [match_r1]) a_mp3 (ustr ''K'') (ustr ''me@x.org'') out_dir False w
      = (Inr (Some alice), ?after w)"
    by (simp add: process_file_def process_file_body_svc_of match_r1_def rid
        get_musicbrainz_metadata_svc_of)
  have one: "\<And>w. fs w = fs0 \<Longrightarrow> process_one (svc_of [match_r1]) out_dir (ustr ''artist'')
      (ustr ''K'') (ustr ''me@x.org'') False a_mp3 w = (Inl NameError, ?after w)"
  proof -
    fix w :: world
    assume f: "fs w = fs0"
    have v: "path_exists (fs w) a_mp3 \<and> is_file (fs w) a_mp3 \<and>
        str_lower (suffix a_mp3) \<in> set supported_suffixes"
      using f by (rule valid_mp3_w0) simp
    show "process_one (svc_of [match_r1]) out_dir (ustr ''artist'')
        (ustr ''K'') (ustr ''me@x.org'') False a_mp3 w = (Inl NameError, ?after w)"
      using v pf [of w] place_file_alice [of "svc_of [match_r1]" a_mp3 out_dir "ustr ''artist''"
          False "?after w"]
      by (simp add: process_one_def)
  qed
  have r: "range_step (length [a_mp3, b_mp3]) (nat 100) = [0]" by (simp add: range_step_def)
  have f0: "\<And>m. fs (print m (emit ExecutorCreated w0)) = fs0" by (simp add: w0_def)
  show ?thesis
    using r by (simp add: process_files_in_batches_def Let_def one [OF f0]) blast
qed

text \<open>
  C5. The destination is never computed. For the metadata of the scenario (artist Alice,
  title Song, release Album of 2020-05-01), whatever the criterion, the source file, the
  output folder and the state of the file system, the placement raises \<^verbatim>\<open>NameError\<close>
  at line 87 and leaves the world as it was: no folder \<^verbatim>\<open>Alice\<close> or \<^verbatim>\<open>2020\<close>, no copy.
\<close>

theorem place_file_alice_raises:
  "place_file svc f out (ustr ''artist'') rm alice w = (Inl NameError, w) \<and>
   place_file svc f out (ustr ''year'') rm alice w = (Inl NameError, w) \<and>
   place_file svc f out ob rm alice w = (Inl NameError, w)"
  by (simp add: place_file_alice)

text \<open>
  C9. With the artist criterion the folder is \<^verbatim>\<open>Unknown Artist\<close> when no credit gives a
  name. As soon as there is a name, line 87 calls a sanitizer that parser.py has not
  imported: for the artist Alice the sanitizer of sound_utils would give \<^verbatim>\<open>Alice\<close>, and
  parser.py raises \<^verbatim>\<open>NameError\<close>.
\<close>

theorem artist_folder_raises:
  "artists_of alice_rec = [ustr ''Alice''] \<and>
   escape_folder_name (join (ustr ''&'') (artists_of alice_rec)) = ustr ''Alice'' \<and>
   artist_folder alice_rec = Inl NameError \<and>
   artist_folder no_artist_rec = Inr (ustr ''Unknown Artist'')"
proof -
  have "escape_folder_name (ustr ''Alice'') = ustr ''Alice''"
    by (simp add: escape_folder_name_eq re_sub_invalid_def invalid_char_def strip_def
        is_space_def ustr_def)
  moreover have "artists_of no_artist_rec = []"
    by (simp add: artists_of_def no_artist_rec_def get_list_def)
  ultimately show ?thesis by (simp add: artist_folder_eq artists_of_alice)
qed

text \<open>
  C1. A batch of two files, the first identified as in the scenario: the exception of
  line 87 leaves \<^verbatim>\<open>process_files_in_batches\<close>, and the second file is never looked
  at.
\<close>

theorem identified_file_aborts_run:
  "fst (process_files_in_batches (svc_of [match_r1]) [a_mp3, b_mp3] 100 out_dir (ustr ''artist'')
          (ustr ''K'') (ustr ''me@x.org'') False w0) = Inl NameError \<and>
   effects (snd (process_files_in_batches (svc_of [match_r1]) [a_mp3, b_mp3] 100 out_dir
                   (ustr ''artist'') (ustr ''K'') (ustr ''me@x.org'') False w0)) =
     [ExecutorCreated, RunFpcalc a_mp3, AcoustidLookup (ustr ''AQAD'') 187 (ustr ''K''),
      MusicBrainzLookup (ustr ''R1'') (ustr ''me@x.org''), ExecutorShutdown] \<and>
   RunFpcalc b_mp3 \<notin> set (effects (snd (process_files_in_batches (svc_of [match_r1])
       [a_mp3, b_mp3] 100 out_dir (ustr ''artist'') (ustr ''K'') (ustr ''me@x.org'') False w0)))"
proof -
  obtain m where run: "process_files_in_batches (svc_of [match_r1]) [a_mp3, b_mp3] 100 out_dir
      (ustr ''artist'') (ustr ''K'') (ustr ''me@x.org'') False w0 =
        (Inl NameError,
         emit ExecutorShutdown
           (emit (MusicBrainzLookup (ustr ''R1'') (ustr ''me@x.org''))
              (emit (AcoustidLookup (ustr ''AQAD'') 187 (ustr ''K''))
                 (emit (RunFpcalc a_mp3) (print m (emit ExecutorCreated w0))))))"
    using identified_run by blast
  show ?thesis
    by (simp only: run fst_conv snd_conv) (simp add: w0_def a_mp3_def b_mp3_def ustr_def)
qed

text \<open>
  C7. In that run the second file exists, is a regular file and has the suffix
  \<^verbatim>\<open>.mp3\<close>, and the fingerprinting tool is never run on it: the run has ended with the
  exception of the first file.
\<close>

theorem valid_file_not_fingerprinted:
  "path_exists (fs w0) b_mp3 \<and> is_file (fs w0) b_mp3 \<and>
   str_lower (suffix b_mp3) \<in> set supported_suffixes \<and>
   filter is_fpcalc (effects (snd (process_files_in_batches (svc_of [match_r1]) [a_mp3, b_mp3] 100
       out_dir (ustr ''artist'') (ustr ''K'') (ustr ''me@x.org'') False w0))) = [RunFpcalc a_mp3] \<and>
   fst (process_files_in_batches (svc_of [match_r1]) [a_mp3, b_mp3] 100 out_dir (ustr ''artist'')
          (ustr ''K'') (ustr ''me@x.org'') False w0) = Inl NameError"
proof -
  obtain m where run: "process_files_in_batches (svc_of [match_r1]) [a_mp3, b_mp3] 100 out_dir
      (ustr ''artist'') (ustr ''K'') (ustr ''me@x.org'') False w0 =
        (Inl NameError,
         emit ExecutorShutdown
           (emit (MusicBrainzLookup (ustr ''R1'') (ustr ''me@x.org''))
              (emit (AcoustidLookup (ustr ''AQAD'') 187 (ustr ''K''))
                 (emit (RunFpcalc a_mp3) (print m (emit ExecutorCreated w0))))))"
    using identified_run by blast
  have v: "path_exists (fs w0) b_mp3 \<and> is_file (fs w0) b_mp3 \<and>
      str_lower (suffix b_mp3) \<in> set supported_suffixes"
    by (rule valid_mp3_w0) (simp_all add: w0_def)
  have e: "filter is_fpcalc (effects (snd (process_files_in_batches (svc_of [match_r1])
      [a_mp3, b_mp3] 100 out_dir (ustr ''artist'') (ustr ''K'') (ustr ''me@x.org'') False w0))) =
      [RunFpcalc a_mp3]"
    by (simp only: run snd_conv) (simp add: w0_def)
  show ?thesis using v e run by simp
qed

section \<open>The copy to the unsorted folder\<close>



lemma fold_mkdir: "fold (\<lambda>q m. m(q \<mapsto> Dir)) qs g p = (if p \<in> set qs then Some Dir else g p)"
  by (induction qs arbitrary: g) auto




















section \<open>The recording that decides\<close>







lemmas scenario_defs =
  process_file_def process_file_body_def generate_fingerprint_def
  recognize_song_acoustid_def get_musicbrainz_metadata_def copy_to_unsorted_def
  remove_original_def mkdir_parents_def copy2_def unlink_def svc_of_def Let_def
  fp_out_def ustr_def startswith_def after_eq_def py_int_def strip_def is_space_def
  match_none_def match_r1_def match_noid_def w0_def fs0_def a_mp3_def b_mp3_def notes_txt_def
  out_dir_def joinpath_def path_name_def ancestors_self_def is_file_def is_dir_def fold_mkdir



section \<open>The files of a batch, one after the other\<close>

lemma process_batch_append:
  "process_batch svc out ob k c rm (xs @ ys) w =
     (case process_batch svc out ob k c rm xs w of
        (Inl e, w1) \<Rightarrow> (Inl e, w1)
      | (Inr u, w1) \<Rightarrow> process_batch svc out ob k c rm ys w1)"
proof (induction xs arbitrary: w)
  case Nil
  show ?case by simp
next
  case (Cons x xs)
  obtain r w1 where p: "process_one svc out ob k c rm x w = (r, w1)" by fastforce
  show ?case using p Cons.IH [of w1] by (cases r) simp_all
qed

text \<open>
  C2. The executor is created and shut down, and nothing is handed to it: the loop calls
  \<^verbatim>\<open>process_file\<close> itself and waits for it. The files of a batch are processed one
  after the other, in the order of the list, each to its end before the next begins
  (and none after one that raises). For two files that end in the unsorted folder, all
  calls for the first precede all calls for the second.
\<close>

theorem batch_is_sequential:
  "process_batch svc out ob k c rm (xs @ ys) w =
     (case process_batch svc out ob k c rm xs w of
        (Inl e, w1) \<Rightarrow> (Inl e, w1)
      | (Inr u, w1) \<Rightarrow> process_batch svc out ob k c rm ys w1) \<and>
   process_files_in_batches (svc_of [match_none]) [a_mp3, b_mp3] 100 out_dir (ustr ''artist'')
       (ustr ''K'') (ustr ''me@x.org'') False w0 =
     (Inr (),
      \<lparr>fs = fs0(out_dir \<mapsto> Dir, out_dir @ [ustr ''unsorted''] \<mapsto> Dir,
                out_dir @ [ustr ''unsorted'', ustr ''a.mp3''] \<mapsto> File [1, 2, 3],
                out_dir @ [ustr ''unsorted'', ustr ''b.mp3''] \<mapsto> File [4, 5]),
       effects =
         [ExecutorCreated,
          RunFpcalc a_mp3, AcoustidLookup (ustr ''AQAD'') 187 (ustr ''K''),
          Mkdir (out_dir @ [ustr ''unsorted'']),
          Copy2 a_mp3 (out_dir @ [ustr ''unsorted'', ustr ''a.mp3'']),
          RunFpcalc b_mp3, AcoustidLookup (ustr ''AQAD'') 187 (ustr ''K''),
          Mkdir (out_dir @ [ustr ''unsorted'']),
          Copy2 b_mp3 (out_dir @ [ustr ''unsorted'', ustr ''b.mp3'']),
          ExecutorShutdown],
       logged =
         [ProcessingBatch 1 1 2,
          NoMetadataMoved a_mp3 (out_dir @ [ustr ''unsorted'', ustr ''a.mp3'']),
          NoMetadataMoved b_mp3 (out_dir @ [ustr ''unsorted'', ustr ''b.mp3''])]\<rparr>)"
proof
  show "process_batch svc out ob k c rm (xs @ ys) w =
     (case process_batch svc out ob k c rm xs w of
        (Inl e, w1) \<Rightarrow> (Inl e, w1)
      | (Inr u, w1) \<Rightarrow> process_batch svc out ob k c rm ys w1)"
    by (rule process_batch_append)
next
  show "process_files_in_batches (svc_of [match_none]) [a_mp3, b_mp3] 100 out_dir (ustr ''artist'')
       (ustr ''K'') (ustr ''me@x.org'') False w0 =
     (Inr (),
      \<lparr>fs = fs0(out_dir \<mapsto> Dir, out_dir @ [ustr ''unsorted''] \<mapsto> Dir,
                out_dir @ [ustr ''unsorted'', ustr ''a.mp3''] \<mapsto> File [1, 2, 3],
                out_dir @ [ustr ''unsorted'', ustr ''b.mp3''] \<mapsto> File [4, 5]),
       effects =
         [ExecutorCreated,
          RunFpcalc a_mp3, AcoustidLookup (ustr ''AQAD'') 187 (ustr ''K''),
          Mkdir (out_dir @ [ustr ''unsorted'']),
          Copy2 a_mp3 (out_dir @ [ustr ''unsorted'', ustr ''a.mp3'']),
          RunFpcalc b_mp3, AcoustidLookup (ustr ''AQAD'') 187 (ustr ''K''),
          Mkdir (out_dir @ [ustr ''unsorted'']),
          Copy2 b_mp3 (out_dir @ [ustr ''unsorted'', ustr ''b.mp3'']),
          ExecutorShutdown],
       logged =
         [ProcessingBatch 1 1 2,
          NoMetadataMoved a_mp3 (out_dir @ [ustr ''unsorted'', ustr ''a.mp3'']),
          NoMetadataMoved b_mp3 (out_dir @ [ustr ''unsorted'', ustr ''b.mp3''])]\<rparr>)"
    by (simp add: process_files_in_batches_def range_step_def process_one_def
        supported_suffixes_def suffix_def rfind_def str_lower_def path_exists_def
        emit_def print_def scenario_defs)
      (auto simp: fun_eq_iff)
qed

text \<open>
  C4. Two results without recordings: the same file is copied to the unsorted folder
  twice. A result without recordings followed by one with the recording \<^verbatim>\<open>R1\<close>: the
  file is copied to the unsorted folder and \<^verbatim>\<open>process_file\<close> still returns the
  metadata, so the file is unsorted and identified at once.
\<close>

theorem unsorted_copy_repeats:
  "effects (snd (process_file (svc_of [match_none, match_none]) a_mp3 (ustr ''K'')
                   (ustr ''me@x.org'') out_dir False w0)) =
     [RunFpcalc a_mp3, AcoustidLookup (ustr ''AQAD'') 187 (ustr ''K''),
      Mkdir (out_dir @ [ustr ''unsorted'']),
      Copy2 a_mp3 (out_dir @ [ustr ''unsorted'', ustr ''a.mp3'']),
      Mkdir (out_dir @ [ustr ''unsorted'']),
      Copy2 a_mp3 (out_dir @ [ustr ''unsorted'', ustr ''a.mp3''])] \<and>
   fst (process_file (svc_of [match_none, match_r1]) a_mp3 (ustr ''K'') (ustr ''me@x.org'')
          out_dir False w0) = Inr (Some alice) \<and>
   effects (snd (process_file (svc_of [match_none, match_r1]) a_mp3 (ustr ''K'')
                   (ustr ''me@x.org'') out_dir False w0)) =
     [RunFpcalc a_mp3, AcoustidLookup (ustr ''AQAD'') 187 (ustr ''K''),
      Mkdir (out_dir @ [ustr ''unsorted'']),
      Copy2 a_mp3 (out_dir @ [ustr ''unsorted'', ustr ''a.mp3'']),
      MusicBrainzLookup (ustr ''R1'') (ustr ''me@x.org'')] \<and>
   fs (snd (process_file (svc_of [match_none, match_r1]) a_mp3 (ustr ''K'') (ustr ''me@x.org'')
              out_dir False w0)) (out_dir @ [ustr ''unsorted'', ustr ''a.mp3'']) = Some (File [1, 2, 3])"
  by (simp add: scenario_defs)

end
